theory Spec2Isabelle
  imports Complex_Main
begin

section \<open>Values, fields and labelled arrays\<close>

text \<open>
  The budget code works on xarray arrays of floating-point numbers in which a missing
  value is NaN: \<^verbatim>\<open>where(mask)\<close> writes NaN outside the mask, \<^verbatim>\<open>shift\<close> writes NaN into the
  slot it vacates, \<^verbatim>\<open>fillna(0)\<close> replaces every NaN, \<^verbatim>\<open>sum\<close> skips NaN. A value is a real
  number or missing (\<open>None\<close>); arithmetic with a missing operand is missing. Rounding is
  not modelled: the numbers are reals.

  A horizontal field is a list of rows (axis \<^verbatim>\<open>nlat\<close>) of cells (axis \<^verbatim>\<open>nlon\<close>); a field
  with a vertical axis holds in every cell its column of layers (axis \<^verbatim>\<open>z_t\<close>, layer 0
  the shallowest). xarray addresses axes by name, so the nesting order is only a matter
  of representation. All fields are those of one time step. xarray refuses to combine
  arrays whose axes differ in size; the list operations below pair elements up to the
  shorter operand, and the theorems that depend on shapes state them as premises.
\<close>

type_synonym val = "real option"

type_synonym 'a field2 = "'a list list"

type_synonym 'a field3 = "'a list list list"

definition nan_mul :: "val \<Rightarrow> val \<Rightarrow> val" where
  "nan_mul a b = (case a of None \<Rightarrow> None | Some x \<Rightarrow> (case b of None \<Rightarrow> None | Some y \<Rightarrow> Some (x * y)))"

definition nan_add :: "val \<Rightarrow> val \<Rightarrow> val" where
  "nan_add a b = (case a of None \<Rightarrow> None | Some x \<Rightarrow> (case b of None \<Rightarrow> None | Some y \<Rightarrow> Some (x + y)))"

definition nan_sub :: "val \<Rightarrow> val \<Rightarrow> val" where
  "nan_sub a b = (case a of None \<Rightarrow> None | Some x \<Rightarrow> (case b of None \<Rightarrow> None | Some y \<Rightarrow> Some (x - y)))"

definition nan_neg :: "val \<Rightarrow> val" where
  "nan_neg a = (case a of None \<Rightarrow> None | Some x \<Rightarrow> Some (- x))"

text \<open>\<^verbatim>\<open>fillna(0)\<close> on one value, and the number a value counts for in a NaN-skipping sum.\<close>

definition fillna0 :: "val \<Rightarrow> val" where
  "fillna0 a = (case a of None \<Rightarrow> Some 0 | Some x \<Rightarrow> Some x)"

definition skipna :: "val \<Rightarrow> real" where
  "skipna a = (case a of None \<Rightarrow> 0 | Some x \<Rightarrow> x)"

text \<open>An array with the two attributes the budget code sets (\<^verbatim>\<open>attrs['units']\<close>,
  \<^verbatim>\<open>attrs['long_name']\<close>); \<open>None\<close> is an attribute that is not set.\<close>

record 'a data_array =
  dvalues :: 'a
  units :: "string option"
  long_name :: "string option"

text \<open>The failures of the modelled code. \<open>UnknownGrid\<close> is the \<^verbatim>\<open>ValueError\<close> of \<^verbatim>\<open>get_grid\<close>
  for a name that is not in \<^verbatim>\<open>grid_defs\<close>; \<open>IndexOutOfBounds\<close> is the \<^verbatim>\<open>IndexError\<close> of
  numpy for an index into an axis of size 0; \<open>TopographyDims\<close>, \<open>MaxKMT\<close> and
  \<open>RegionMaskDims\<close> are its three assertions; \<open>InvalidDirection\<close> is the \<^verbatim>\<open>ValueError\<close> of
  \<^verbatim>\<open>_compute_horizontal_divergence\<close>; \<open>MissingMaskInt\<close> is the \<^verbatim>\<open>ValueError\<close> of
  \<^verbatim>\<open>regional_tracer_budget\<close>; \<open>EmptyReduction\<close> is the \<^verbatim>\<open>ValueError\<close> numpy raises for
  \<^verbatim>\<open>argmin\<close> or \<^verbatim>\<open>max\<close> of an empty array.\<close>

datatype error =
    UnknownGrid string
  | IndexOutOfBounds
  | TopographyDims
  | MaxKMT
  | RegionMaskDims
  | InvalidDirection
  | MissingMaskInt
  | EmptyReduction

section \<open>Array operations of numpy and xarray used by the code\<close>

text \<open>Python's \<^verbatim>\<open>xs[0:stop]\<close>: a negative stop counts from the end.\<close>

definition slice0 :: "int \<Rightarrow> 'a list \<Rightarrow> 'a list" where
  "slice0 stop xs = (if stop < 0 then take (nat (int (length xs) + stop)) xs else take (nat stop) xs)"

text \<open>\<^verbatim>\<open>roll\<close> by \<open>s\<close> along one axis: element \<open>i\<close> of the result is element
  \<open>(i - s) mod n\<close> of the operand.\<close>

definition roll :: "int \<Rightarrow> 'a list \<Rightarrow> 'a list" where
  "roll s xs = rotate (nat ((- s) mod int (length xs))) xs"

definition roll_nlat :: "int \<Rightarrow> 'a field2 \<Rightarrow> 'a field2" where
  "roll_nlat s f = roll s f"

definition roll_nlon :: "int \<Rightarrow> 'a field2 \<Rightarrow> 'a field2" where
  "roll_nlon s f = map (roll s) f"

text \<open>\<^verbatim>\<open>da.isel(z_t=slice(0, stop))\<close>, \<^verbatim>\<open>da.where(mask)\<close> with a horizontal mask,
  \<^verbatim>\<open>da.shift(z_t=-1)\<close>, \<^verbatim>\<open>da.fillna(0)\<close>, \<^verbatim>\<open>a - b\<close>, \<^verbatim>\<open>-a\<close> and \<^verbatim>\<open>da.sum('z_t')\<close>.\<close>

definition isel_z :: "int \<Rightarrow> 'a field3 \<Rightarrow> 'a field3" where
  "isel_z stop f = map (map (slice0 stop)) f"

definition where_mask :: "val field3 \<Rightarrow> bool field2 \<Rightarrow> val field3" where
  "where_mask da msk =
     map2 (map2 (\<lambda>col m. if m then col else map (\<lambda>_. None) col)) da msk"

definition shift_up :: "val list \<Rightarrow> val list" where
  "shift_up col = (case col of [] \<Rightarrow> [] | _ # rest \<Rightarrow> rest @ [None])"

definition shift_z :: "val field3 \<Rightarrow> val field3" where
  "shift_z f = map (map shift_up) f"

definition fillna :: "val field3 \<Rightarrow> val field3" where
  "fillna f = map (map (map fillna0)) f"

definition sub3 :: "val field3 \<Rightarrow> val field3 \<Rightarrow> val field3" where
  "sub3 a b = map2 (map2 (map2 nan_sub)) a b"

definition add3 :: "val field3 \<Rightarrow> val field3 \<Rightarrow> val field3" where
  "add3 a b = map2 (map2 (map2 nan_add)) a b"

definition neg3 :: "val field3 \<Rightarrow> val field3" where
  "neg3 a = map (map (map nan_neg)) a"

definition sum_z :: "val field3 \<Rightarrow> val field2" where
  "sum_z f = map (map (\<lambda>col. Some (sum_list (map skipna col)))) f"

text \<open>The index of the first element with a property, and numpy's \<^verbatim>\<open>argmin\<close>: the index
  of the first occurrence of the least element; it raises on an empty array.\<close>

fun first_index :: "('a \<Rightarrow> bool) \<Rightarrow> 'a list \<Rightarrow> nat" where
  "first_index P [] = 0"
| "first_index P (x # xs) = (if P x then 0 else Suc (first_index P xs))"

definition argmin :: "('a::linorder) list \<Rightarrow> error + nat" where
  "argmin xs = (if xs = [] then Inl EmptyReduction
                else Inr (first_index (\<lambda>x. x = fold min xs (hd xs)) xs))"

section \<open>budget.py\<close>

definition NMOLS_TO_MOLYR :: real where
  "NMOLS_TO_MOLYR = 1 / 10 ^ 9 * 86400 * 365"

text \<open>\<^verbatim>\<open>_compute_kmax(budget_depth, z)\<close>: \<^verbatim>\<open>(z <= budget_depth).argmin() - 1\<close>, with \<open>-1\<close>
  replaced by \<^verbatim>\<open>None\<close>.\<close>

definition compute_kmax :: "real \<Rightarrow> real list \<Rightarrow> error + int option" where
  "compute_kmax budget_depth z =
     (case argmin (map (\<lambda>x. x \<le> budget_depth) z) of
        Inl e \<Rightarrow> Inl e
      | Inr a \<Rightarrow> (let kmax = int a - 1 in Inr (if kmax = - 1 then None else Some kmax)))"

text \<open>The normalizer of a tendency conversion: the cell volume has a \<^verbatim>\<open>z_t\<close> axis, the
  cell area has none.\<close>

datatype normalizer = Vol "real field3" | Area "real field2"

text \<open>\<^verbatim>\<open>_convert_to_tendency(ds, normalizer, sign=1, kmax=None)\<close>.\<close>

definition convert_to_tendency ::
    "val field3 \<Rightarrow> normalizer \<Rightarrow> real \<Rightarrow> int option \<Rightarrow> val field3 data_array" where
  "convert_to_tendency ds nrm sign kmax =
     (let nrm' = (case kmax of
                    None \<Rightarrow> nrm
                  | Some k \<Rightarrow> (case nrm of Vol v \<Rightarrow> Vol (isel_z (k + 1) v) | Area a \<Rightarrow> Area a));
          ds' = (case nrm' of
                   Vol v \<Rightarrow> map2 (map2 (map2 (\<lambda>x n. nan_mul (nan_mul x (Some n)) (Some sign)))) ds v
                 | Area a \<Rightarrow> map2 (map2 (\<lambda>col n. map (\<lambda>x. nan_mul (nan_mul x (Some n)) (Some sign)) col)) ds a)
      in \<lparr>dvalues = ds', units = Some ''nmol/s'', long_name = None\<rparr>)"

text \<open>\<^verbatim>\<open>_convert_units(ds)\<close>, here on a horizontal field (the budget terms after the sum
  over depth).\<close>

definition convert_units :: "val field2 data_array \<Rightarrow> val field2 data_array" where
  "convert_units ds =
     ds\<lparr>dvalues := map (map (\<lambda>v. nan_mul v (Some NMOLS_TO_MOLYR))) (dvalues ds),
        units := Some ''mol/yr''\<rparr>"

text \<open>\<^verbatim>\<open>_compute_horizontal_divergence(da, mask, direction)\<close>.\<close>

definition compute_horizontal_divergence ::
    "val field3 \<Rightarrow> bool field2 \<Rightarrow> string \<Rightarrow> error + val field3" where
  "compute_horizontal_divergence da msk direction =
     (if direction = ''zonal'' then
        (let mask_roll = roll_nlon (- 1) msk
         in Inr (sub3 (roll_nlon 1 (where_mask da mask_roll)) (where_mask da msk)))
      else if direction = ''meridional'' then
        (let mask_roll = roll_nlat (- 1) msk
         in Inr (sub3 (roll_nlon 1 (where_mask da mask_roll)) (where_mask da msk)))
      else Inl InvalidDirection)"

text \<open>\<^verbatim>\<open>_compute_vertical_divergence(da)\<close>: a cap of zeros of the horizontal shape of
  \<open>da\<close> is concatenated on top, then \<^verbatim>\<open>diff('z_t')\<close> subtracts from every layer the one
  above it.\<close>

definition nlat_size :: "'a list list \<Rightarrow> nat" where
  "nlat_size f = length f"

definition nlon_size :: "'a list list \<Rightarrow> nat" where
  "nlon_size f = (case f of [] \<Rightarrow> 0 | row # _ \<Rightarrow> length row)"

definition concat_z :: "val field2 \<Rightarrow> val field3 \<Rightarrow> val field3" where
  "concat_z cap da = map2 (map2 (\<lambda>c col. c # col)) cap da"

definition diff_z :: "val field3 \<Rightarrow> val field3" where
  "diff_z f = map (map (\<lambda>col. map2 nan_sub (tl col) col)) f"

definition compute_vertical_divergence :: "val field3 \<Rightarrow> val field3" where
  "compute_vertical_divergence da =
     (let ny = nlat_size da; nx = nlon_size da;
          zero_cap = replicate ny (replicate nx (Some 0));
          vdiv = concat_z zero_cap da
      in diff_z vdiv)"

text \<open>\<^verbatim>\<open>_compute_vertical_advection\<close>, from the loaded flux \<^verbatim>\<open>WT\<close> on: the arguments are the
  loaded field, \<^verbatim>\<open>grid.vol\<close>, the mask and \<^verbatim>\<open>kmax\<close>.\<close>

definition compute_vertical_advection ::
    "val field3 \<Rightarrow> real field3 \<Rightarrow> bool field2 \<Rightarrow> int option \<Rightarrow> val field2 data_array" where
  "compute_vertical_advection WT vol msk kmax =
     (let ds = (case kmax of None \<Rightarrow> WT | Some k \<Rightarrow> isel_z (k + 2) WT);
          ds = where_mask ds msk;
          ds = (case kmax of
                  Some k \<Rightarrow> dvalues (convert_to_tendency ds (Vol vol) 1 (Some (k + 1)))
                | None \<Rightarrow> dvalues (convert_to_tendency ds (Vol vol) 1 None));
          vadv = isel_z (- 1) (sub3 (fillna (shift_z ds)) ds);
          vadv = sum_z vadv;
          vadv = convert_units \<lparr>dvalues = vadv, units = None, long_name = None\<rparr>
      in vadv\<lparr>long_name := Some ''vertical advection''\<rparr>)"

text \<open>\<^verbatim>\<open>_compute_lateral_advection\<close>, from the loaded fluxes \<^verbatim>\<open>UE\<close> and \<^verbatim>\<open>VN\<close> on.\<close>

definition compute_lateral_advection ::
    "val field3 \<Rightarrow> val field3 \<Rightarrow> real field3 \<Rightarrow> bool field2 \<Rightarrow> int option \<Rightarrow>
     error + val field2 data_array" where
  "compute_lateral_advection UE VN vol msk kmax =
     (let UE = (case kmax of None \<Rightarrow> UE | Some k \<Rightarrow> isel_z (k + 1) UE);
          VN = (case kmax of None \<Rightarrow> VN | Some k \<Rightarrow> isel_z (k + 1) VN);
          UE = dvalues (convert_to_tendency UE (Vol vol) 1 kmax);
          VN = dvalues (convert_to_tendency VN (Vol vol) 1 kmax)
      in case compute_horizontal_divergence UE msk ''zonal'' of
           Inl e \<Rightarrow> Inl e
         | Inr ladv_zonal \<Rightarrow>
             (case compute_horizontal_divergence VN msk ''meridional'' of
                Inl e \<Rightarrow> Inl e
              | Inr ladv_merid \<Rightarrow>
                  (let ladv = sum_z (add3 ladv_zonal ladv_merid);
                       ladv = convert_units \<lparr>dvalues = ladv, units = None, long_name = None\<rparr>
                   in Inr (ladv\<lparr>long_name := Some ''lateral advection''\<rparr>))))"

section \<open>grid.py\<close>

text \<open>What \<^verbatim>\<open>get_grid\<close> reads for one grid name: the entry of \<^verbatim>\<open>grid_defs\<close>
  (\<^verbatim>\<open>lateral_dims\<close>) and the contents of the files it names. \<^verbatim>\<open>HTN\<close> and \<^verbatim>\<open>HTE\<close> are
  the slices 2 and 3 of the horizontal grid file after \<^verbatim>\<open>reshape((7, nlat, nlon))\<close>, so
  they have \<open>nlat\<close> rows of \<open>nlon\<close> numbers.\<close>

record raw_grid =
  nlat :: nat
  nlon :: nat
  HTN :: "real field2"
  HTE :: "real field2"
  vert_dz :: "real list"
  kmt_flat :: "int list"
  region_mask_flat :: "int list"

text \<open>The variables of the dataset \<^verbatim>\<open>get_grid\<close> returns that are modelled here. The
  coordinates \<^verbatim>\<open>TLAT\<close>, \<^verbatim>\<open>TLONG\<close>, \<^verbatim>\<open>ULAT\<close>, \<^verbatim>\<open>ULONG\<close> (trigonometry on floats), the column
  depths \<^verbatim>\<open>HT\<close>, \<^verbatim>\<open>HU\<close> and the SCRIP variant are left out.\<close>

record pop_grid =
  DXT :: "real field2"
  DYT :: "real field2"
  DXU :: "real field2"
  DYU :: "real field2"
  TAREA :: "real field2"
  UAREA :: "real field2"
  KMT :: "int field2"
  KMU :: "int field2"
  REGION_MASK :: "int field2"
  z_t :: "real list"
  dz :: "real list"
  z_w :: "real list"
  z_w_bot :: "real list"

definition half_sum :: "real list \<Rightarrow> real list \<Rightarrow> real list" where
  "half_sum a b = map2 (\<lambda>x y. 0.5 * (x + y)) a b"

text \<open>\<^verbatim>\<open>DXT[1:, :] = 0.5 * (HTN[: nlat - 1, :] + HTN[1:, :])\<close> and
  \<^verbatim>\<open>DXT[0, :] = 0.5 * (HTN[0, :] + HTN[nlat - 1, :])\<close>.\<close>

definition generate_DXT :: "nat \<Rightarrow> real field2 \<Rightarrow> real field2" where
  "generate_DXT n_lat htn =
     half_sum (htn ! 0) (htn ! (n_lat - 1)) # map2 half_sum (take (n_lat - 1) htn) (drop 1 htn)"

text \<open>\<^verbatim>\<open>DYT[:, 1:] = 0.5 * (HTE[:, : nlon - 1] + HTE[:, 1:])\<close> and
  \<^verbatim>\<open>DYT[:, 0] = 0.5 * (HTE[:, nlon - 1] + HTE[:, 0])\<close>.\<close>

definition generate_DYT :: "nat \<Rightarrow> real field2 \<Rightarrow> real field2" where
  "generate_DYT n_lon hte =
     map (\<lambda>row. 0.5 * (row ! (n_lon - 1) + row ! 0) # half_sum (take (n_lon - 1) row) (drop 1 row)) hte"

text \<open>\<^verbatim>\<open>DXU[:, : nlon - 1] = 0.5 * (HTN[:, : nlon - 1] + HTN[:, 1:])\<close> and
  \<^verbatim>\<open>DXU[:, nlon - 1] = 0.5 * (HTN[:, nlon - 1] + HTN[:, 0])\<close>.\<close>

definition generate_DXU :: "nat \<Rightarrow> real field2 \<Rightarrow> real field2" where
  "generate_DXU n_lon htn =
     map (\<lambda>row. half_sum (take (n_lon - 1) row) (drop 1 row) @ [0.5 * (row ! (n_lon - 1) + row ! 0)]) htn"

text \<open>\<^verbatim>\<open>DYU[: nlat - 1, :] = 0.5 * (HTE[: nlat - 1, :] + HTE[1:, :])\<close> and
  \<^verbatim>\<open>DYU[nlat - 1, :] = 0.5 * (HTE[nlat - 1, :] + HTE[0, :])\<close>.\<close>

definition generate_DYU :: "nat \<Rightarrow> real field2 \<Rightarrow> real field2" where
  "generate_DYU n_lat hte =
     map2 half_sum (take (n_lat - 1) hte) (drop 1 hte) @ [half_sum (hte ! (n_lat - 1)) (hte ! 0)]"

text \<open>\<^verbatim>\<open>_generate_KMU(KMT)\<close>. The loops run over all rows \<open>i\<close> and columns \<open>j\<close>; the
  indices \<open>i - 1\<close> and \<open>j - 1\<close> are \<open>-1\<close> in row 0 and column 0, which an array index
  counts from the end.\<close>

definition wrap_index :: "'a list \<Rightarrow> int \<Rightarrow> 'a" where
  "wrap_index xs i = xs ! nat (if i < 0 then i + int (length xs) else i)"

definition generate_KMU :: "int field2 \<Rightarrow> int field2" where
  "generate_KMU kmt =
     map (\<lambda>i. map (\<lambda>j.
            min (min (min (wrap_index (wrap_index kmt (int i)) (int j))
                          (wrap_index (wrap_index kmt (int i - 1)) (int j)))
                     (wrap_index (wrap_index kmt (int i)) (int j - 1)))
                (wrap_index (wrap_index kmt (int i - 1)) (int j - 1)))
          [0..<nlon_size kmt])
       [0..<nlat_size kmt]"

text \<open>\<^verbatim>\<open>np.cumsum\<close>, \<^verbatim>\<open>reshape((nlat, nlon))\<close> of a flat array of the right size, and the
  product of two horizontal fields.\<close>

fun cumsum_from :: "real \<Rightarrow> real list \<Rightarrow> real list" where
  "cumsum_from a [] = []"
| "cumsum_from a (x # xs) = (a + x) # cumsum_from (a + x) xs"

definition cumsum :: "real list \<Rightarrow> real list" where
  "cumsum xs = cumsum_from 0 xs"

definition reshape2 :: "nat \<Rightarrow> nat \<Rightarrow> 'a list \<Rightarrow> 'a field2" where
  "reshape2 n_lat n_lon flat = map (\<lambda>i. take n_lon (drop (i * n_lon) flat)) [0..<n_lat]"

definition mul2 :: "real field2 \<Rightarrow> real field2 \<Rightarrow> real field2" where
  "mul2 a b = map2 (map2 (\<lambda>x y. x * y)) a b"

text \<open>\<^verbatim>\<open>get_grid(grid_name)\<close> with \<^verbatim>\<open>scrip=False\<close>; \<open>grid_defs\<close> maps the known grid names
  to what is read for them. Row 0 and column 0 of the width arrays are assigned by
  index, which fails on a grid without rows or without columns; on any other grid the
  topography array that passes the first assertion is not empty, and its maximum
  exists.\<close>

definition get_grid :: "(string \<rightharpoonup> raw_grid) \<Rightarrow> string \<Rightarrow> error + pop_grid" where
  "get_grid grid_defs grid_name =
     (case grid_defs grid_name of
        None \<Rightarrow> Inl (UnknownGrid grid_name)
      | Some r \<Rightarrow>
          (let dxt = generate_DXT (nlat r) (HTN r);
               dyt = generate_DYT (nlon r) (HTE r);
               dxu = generate_DXU (nlon r) (HTN r);
               dyu = generate_DYU (nlat r) (HTE r);
               tarea = mul2 dxt dyt;
               uarea = mul2 dxu dyu;
               depth_edges = 0 # cumsum (vert_dz r);
               zw = slice0 (- 1) depth_edges;
               zwbot = drop 1 depth_edges;
               zt = map2 (\<lambda>e d. e + 0.5 * d) zw (vert_dz r)
           in if nlat r = 0 \<or> nlon r = 0 then Inl IndexOutOfBounds
              else if length (kmt_flat r) \<noteq> nlat r * nlon r then Inl TopographyDims
              else if \<not> fold max (kmt_flat r) (hd (kmt_flat r)) \<le> int (length zt) then Inl MaxKMT
              else if length (region_mask_flat r) \<noteq> nlat r * nlon r then Inl RegionMaskDims
              else
                (let kmt = reshape2 (nlat r) (nlon r) (kmt_flat r)
                 in Inr \<lparr>DXT = dxt, DYT = dyt, DXU = dxu, DYU = dyu, TAREA = tarea, UAREA = uarea,
                         KMT = kmt, KMU = generate_KMU kmt,
                         REGION_MASK = reshape2 (nlat r) (nlon r) (region_mask_flat r),
                         z_t = zt, dz = vert_dz r, z_w = zw, z_w_bot = zwbot\<rparr>)))"

section \<open>budget.py: the grid of a budget and the entry point\<close>

text \<open>\<^verbatim>\<open>_process_grid(grid)\<close>: the dataset of \<^verbatim>\<open>area\<close>, \<^verbatim>\<open>vol\<close> (area times layer
  thickness), \<^verbatim>\<open>z\<close> (the layer bottom depths) and \<^verbatim>\<open>mask\<close> (the region classification).\<close>

record budget_grid =
  g_area :: "real field2"
  g_vol :: "real field3"
  g_z :: "real list"
  g_mask :: "int field2"

definition process_grid :: "(string \<rightharpoonup> raw_grid) \<Rightarrow> string \<Rightarrow> error + budget_grid" where
  "process_grid grid_defs grid =
     (case get_grid grid_defs grid of
        Inl e \<Rightarrow> Inl e
      | Inr grid_f \<Rightarrow>
          Inr \<lparr>g_area = TAREA grid_f,
               g_vol = map (map (\<lambda>a. map (\<lambda>d. a * d) (dz grid_f))) (TAREA grid_f),
               g_z = z_w_bot grid_f,
               g_mask = REGION_MASK grid_f\<rparr>)"

text \<open>\<^verbatim>\<open>regional_tracer_budget\<close> up to the computation of the terms: the grid, the region
  mask and the depth limit \<^verbatim>\<open>kmax\<close> that every term is computed with. The caller's mask
  and \<^verbatim>\<open>mask_int\<close> and \<^verbatim>\<open>budget_depth\<close> are optional arguments (\<open>None\<close> when not given);
  \<open>budget_kmax\<close> is the statement \<^verbatim>\<open>if budget_depth is not None: ... else: kmax = None\<close>,
  which converts the depth from m to cm.\<close>

definition budget_kmax :: "real option \<Rightarrow> real list \<Rightarrow> error + int option" where
  "budget_kmax budget_depth z =
     (case budget_depth of
        Some d \<Rightarrow> compute_kmax (d * 100) z
      | None \<Rightarrow> Inr None)"

definition regional_tracer_budget_mask_kmax ::
    "(string \<rightharpoonup> raw_grid) \<Rightarrow> string \<Rightarrow> int field2 option \<Rightarrow> int option \<Rightarrow> real option \<Rightarrow>
     error + (bool field2 \<times> int option)" where
  "regional_tracer_budget_mask_kmax grid_defs grid msk mask_int budget_depth =
     (case process_grid grid_defs grid of
        Inl e \<Rightarrow> Inl e
      | Inr g \<Rightarrow>
          (let m = (case msk of None \<Rightarrow> g_mask g | Some m \<Rightarrow> m)
           in case mask_int of
                None \<Rightarrow> Inl MissingMaskInt
              | Some n \<Rightarrow>
                  (let m = map (map (\<lambda>v. v = n)) m
                   in case budget_kmax budget_depth (g_z g) of
                        Inl e \<Rightarrow> Inl e
                      | Inr kmax \<Rightarrow> Inr (m, kmax))))"

section \<open>Reference formulations and example inputs\<close>

text \<open>The latitudinal analogue of the zonal branch of the horizontal divergence, as the
  specification words it: the mask is rolled one row in the negative latitudinal
  direction and applied, the masked field is rolled one row back in the positive
  latitudinal direction, and the directly masked field is subtracted.\<close>

definition latitudinal_analogue :: "val field3 \<Rightarrow> bool field2 \<Rightarrow> val field3" where
  "latitudinal_analogue da msk =
     (let mask_roll = roll_nlat (- 1) msk
      in sub3 (roll_nlat 1 (where_mask da mask_roll)) (where_mask da msk))"

text \<open>The vertical-advection term with a depth limit \<open>kmax\<close>, as the specification words
  it: load one extra layer below \<open>kmax\<close> (layers 0 to \<open>kmax + 1\<close>); apply the mask;
  multiply by the cell volume truncated to the same layers, one more than the lateral
  terms use; shift the field one layer shallower with the vacated deepest slot filled
  with zero and subtract the unshifted field; drop the last layer; sum over depth;
  convert the units. Only the vacated slot is filled with zero.\<close>

definition vertical_advection_as_specified ::
    "val field3 \<Rightarrow> real field3 \<Rightarrow> bool field2 \<Rightarrow> int \<Rightarrow> val field2" where
  "vertical_advection_as_specified WT vol msk kmax =
     (let loaded = map (map (take (nat (kmax + 2)))) WT;
          masked = where_mask loaded msk;
          volume = map (map (take (nat (kmax + 2)))) vol;
          tendency = map2 (map2 (map2 (\<lambda>x v. nan_mul x (Some v)))) masked volume;
          difference = map (map (\<lambda>col. map2 nan_sub (tl col @ [Some 0]) col)) tendency;
          retained = map (map butlast) difference;
          summed = sum_z retained
      in map (map (\<lambda>v. nan_mul v (Some NMOLS_TO_MOLYR))) summed)"

text \<open>What the code computes in one column between the tendency conversion and the sum
  over depth: \<^verbatim>\<open>(col.shift(z_t=-1).fillna(0) - col).isel(z_t=slice(0, -1))\<close>.\<close>

definition column_vadv :: "val list \<Rightarrow> val list" where
  "column_vadv col = slice0 (- 1) (map2 nan_sub (map fillna0 (shift_up col)) col)"

text \<open>A vertical flux in a single cell with four layers, of which the two deepest are
  missing (below the sea floor), and a cell volume of 1 in every layer.\<close>

definition WT_1x1 :: "val field3" where
  "WT_1x1 = [[[Some 1, Some 3, None, None]]]"

definition vol_1x1 :: "real field3" where
  "vol_1x1 = [[[1, 1, 1, 1]]]"

text \<open>The least depth index of the four center-point cells that bound the corner point
  \<open>(i, j)\<close>, as the specification words the corner-point depth index. In \<^verbatim>\<open>grid.py\<close> the
  corner point \<open>(i, j)\<close> is the north-east corner of the center-point cell \<open>(i, j)\<close>:
  \<^verbatim>\<open>_compute_corners\<close> takes \<^verbatim>\<open>ULAT\<close>, \<^verbatim>\<open>ULONG\<close> as the NE corner of each cell,
  \<^verbatim>\<open>_compute_TLAT_TLONG\<close> places the center point \<open>(j, i)\<close> between the corner points of
  rows \<open>j - 1\<close>, \<open>j\<close> and columns \<open>i - 1\<close>, \<open>i\<close>, and \<^verbatim>\<open>DXU\<close> averages the columns \<open>j\<close> and
  \<open>j + 1\<close>. So the cells that bound the corner point \<open>(i, j)\<close> are those of rows \<open>i\<close>,
  \<open>i + 1\<close> and columns \<open>j\<close>, \<open>j + 1\<close>. The definition is for a corner point that is not in
  the last row or the last column.\<close>

definition min_of_bounding_cells :: "int field2 \<Rightarrow> nat \<Rightarrow> nat \<Rightarrow> int" where
  "min_of_bounding_cells kmt i j =
     min (min (min (kmt ! i ! j) (kmt ! i ! (j + 1))) (kmt ! (i + 1) ! j)) (kmt ! (i + 1) ! (j + 1))"

text \<open>A topography of three rows and three columns with five wet layers everywhere but in
  the cell of row 2, column 2, which is land.\<close>

definition kmt_land_corner :: "int field2" where
  "kmt_land_corner = [[5, 5, 5], [5, 5, 5], [5, 5, 0]]"

text \<open>A flux field of three rows, three columns and one layer whose value in row \<open>i\<close>,
  column \<open>j\<close> is \<open>10 i + j\<close>, and the mask that selects the middle cell.\<close>

definition flux_3x3 :: "val field3" where
  "flux_3x3 = [[[Some 0], [Some 1], [Some 2]],
               [[Some 10], [Some 11], [Some 12]],
               [[Some 20], [Some 21], [Some 22]]]"

definition mask_3x3 :: "bool field2" where
  "mask_3x3 = [[False, False, False], [False, True, False], [False, False, False]]"

text \<open>A grid of three rows and three columns with three layers of thickness 10, 20 and
  30, whose layer bottom depths are therefore 10, 30 and 60.\<close>

definition grid_3x3_defs :: "string \<rightharpoonup> raw_grid" where
  "grid_3x3_defs =
     [''g33'' \<mapsto> \<lparr>nlat = 3, nlon = 3,
                   HTN = [[2, 4, 6], [8, 10, 12], [20, 22, 24]],
                   HTE = [[1, 3, 5], [7, 9, 11], [13, 15, 17]],
                   vert_dz = [10, 20, 30],
                   kmt_flat = [0, 1, 2, 3, 3, 1, 2, 0, 3],
                   region_mask_flat = [1, 1, 2, 2, 1, 1, 3, 3, 3]\<rparr>]"

section \<open>Auxiliary lemmas\<close>

subsection \<open>Lists\<close>

lemma map2_map_left: "map2 f (map g xs) ys = map2 (\<lambda>x y. f (g x) y) xs ys"
  by (simp add: zip_map1 case_prod_unfold comp_def)

lemma map2_map_both: "map2 f (map g xs) (map h ys) = map2 (\<lambda>x y. f (g x) (h y)) xs ys"
  by (simp add: zip_map_map case_prod_unfold comp_def)

lemma map_map2: "map g (map2 f xs ys) = map2 (\<lambda>x y. g (f x y)) xs ys"
  by (simp add: case_prod_unfold comp_def)

lemma roll_map: "roll s (map f xs) = map f (roll s xs)"
  by (simp add: roll_def rotate_map)

lemma first_index_eq:
  "i < length xs \<Longrightarrow> P (xs ! i) \<Longrightarrow> (\<forall>j<i. \<not> P (xs ! j)) \<Longrightarrow> first_index P xs = i"
proof (induction xs arbitrary: i)
  case Nil
  then show ?case by simp
next
  case (Cons x xs)
  show ?case
  proof (cases i)
    case 0
    with Cons.prems show ?thesis by simp
  next
    case (Suc n)
    with Cons.prems have "\<not> P x" by auto
    moreover have "first_index P xs = n"
      using Cons.prems Suc by (intro Cons.IH) auto
    ultimately show ?thesis using Suc by simp
  qed
qed

subsection \<open>The depth limit\<close>

lemma fold_min_bool: "fold min bs (a::bool) = (a \<and> list_all id bs)"
  by (induction bs arbitrary: a) (auto simp: min_def)

lemma argmin_bool_all:
  "bs \<noteq> [] \<Longrightarrow> list_all id bs \<Longrightarrow> argmin bs = Inr 0"
  by (cases bs) (auto simp: argmin_def fold_min_bool)

lemma argmin_bool_first:
  assumes "i < length bs" "\<not> bs ! i" "\<forall>j<i. bs ! j"
  shows "argmin bs = Inr i"
proof -
  have ne: "bs \<noteq> []" using assms by auto
  have "\<not> list_all id bs" using assms by (auto simp: list_all_length)
  then have m: "fold min bs (hd bs) = False" by (simp add: fold_min_bool)
  have "first_index (\<lambda>x. x = False) bs = i"
    using assms by (intro first_index_eq) auto
  then show ?thesis using ne m by (simp add: argmin_def)
qed

lemma compute_kmax_first_exceeding:
  assumes "i < length z" "d < z ! i" "\<forall>j<i. z ! j \<le> d"
  shows "compute_kmax d z = Inr (if i = 0 then None else Some (int i - 1))"
proof -
  have "argmin (map (\<lambda>x. x \<le> d) z) = Inr i"
    using assms by (intro argmin_bool_first) auto
  then show ?thesis by (auto simp: compute_kmax_def Let_def)
qed

lemma compute_kmax_none_exceeding:
  assumes "z \<noteq> []" "\<forall>j<length z. z ! j \<le> d"
  shows "compute_kmax d z = Inr None"
proof -
  have "argmin (map (\<lambda>x. x \<le> d) z) = Inr 0"
    using assms by (intro argmin_bool_all) (auto simp: list_all_length)
  then show ?thesis by (simp add: compute_kmax_def)
qed

subsection \<open>The errors of the entry point\<close>

lemma get_grid_not_missing: "get_grid grid_defs grid \<noteq> Inl MissingMaskInt"
  by (simp add: get_grid_def Let_def split: option.splits)

lemma process_grid_not_missing: "process_grid grid_defs grid \<noteq> Inl MissingMaskInt"
  using get_grid_not_missing [of grid_defs grid]
  by (cases "get_grid grid_defs grid") (auto simp: process_grid_def)

lemma compute_kmax_not_missing: "compute_kmax d z \<noteq> Inl MissingMaskInt"
  by (simp add: compute_kmax_def argmin_def Let_def)

lemma budget_kmax_not_missing: "budget_kmax bd z \<noteq> Inl MissingMaskInt"
  using compute_kmax_not_missing by (simp add: budget_kmax_def split: option.splits)

subsection \<open>Negation of a field\<close>

lemma nan_sub_neg: "nan_sub (nan_neg a) (nan_neg b) = nan_neg (nan_sub a b)"
  by (cases a; cases b) (simp_all add: nan_sub_def nan_neg_def)

lemma sub3_neg3: "sub3 (neg3 a) (neg3 b) = neg3 (sub3 a b)"
  by (auto simp: sub3_def neg3_def map2_map_both map_map2 nan_sub_neg)

lemma where_mask_neg3: "where_mask (neg3 da) msk = neg3 (where_mask da msk)"
proof -
  have "(if m then map nan_neg col else map (\<lambda>_. None) (map nan_neg col))
        = map nan_neg (if m then col else map (\<lambda>_. None) col)" for m col
    by (simp add: nan_neg_def)
  then show ?thesis
    by (auto simp: where_mask_def neg3_def map2_map_left map_map2)
qed

lemma roll_nlon_neg3: "roll_nlon s (neg3 f) = neg3 (roll_nlon s f)"
  by (simp add: roll_nlon_def neg3_def roll_map)

subsection \<open>The vertical divergence, column by column\<close>

lemma concat_z_zero_cap:
  assumes "list_all (\<lambda>row. length row = nlon_size da) da"
  shows "concat_z (replicate (nlat_size da) (replicate (nlon_size da) c)) da
         = map (map (\<lambda>col. c # col)) da"
proof (rule nth_equalityI)
  show "length (concat_z (replicate (nlat_size da) (replicate (nlon_size da) c)) da)
        = length (map (map (\<lambda>col. c # col)) da)"
    by (simp add: concat_z_def nlat_size_def)
next
  fix i assume "i < length (concat_z (replicate (nlat_size da) (replicate (nlon_size da) c)) da)"
  then have i: "i < length da" by (simp add: concat_z_def nlat_size_def)
  then have len: "length (da ! i) = nlon_size da"
    using assms by (simp add: list_all_length)
  have "map2 (#) (replicate (nlon_size da) c) (da ! i) = map ((#) c) (da ! i)"
    by (rule nth_equalityI) (simp_all add: len)
  then show "concat_z (replicate (nlat_size da) (replicate (nlon_size da) c)) da ! i
             = map (map (\<lambda>col. c # col)) da ! i"
    using i by (simp add: concat_z_def nlat_size_def)
qed

lemma compute_vertical_divergence_columns:
  assumes "list_all (\<lambda>row. length row = nlon_size da) da"
  shows "compute_vertical_divergence da = map (map (\<lambda>col. map2 nan_sub col (Some 0 # col))) da"
  by (simp add: compute_vertical_divergence_def Let_def concat_z_zero_cap [OF assms] diff_z_def)

lemma nan_sub_zero: "nan_sub a (Some 0) = a"
  by (cases a) (simp_all add: nan_sub_def)

lemma nlon_size_replicate: "nlon_size (replicate ny row) = (if ny = 0 then 0 else length row)"
  by (cases ny) (simp_all add: nlon_size_def)

lemma zero_column:
  "map2 nan_sub (replicate nz (Some 0)) (Some 0 # replicate nz (Some 0)) = replicate nz (Some 0)"
proof -
  have "Some (0::real) # replicate nz (Some 0) = replicate (Suc nz) (Some 0)" by simp
  then show ?thesis
    by (simp only: zip_replicate map_replicate) (simp add: nan_sub_def)
qed

subsection \<open>The vertical advection in one cell\<close>

lemma nan_mul_one: "nan_mul a (Some 1) = a"
  by (cases a) (simp_all add: nan_mul_def)

lemma nan_mul_None: "nan_mul None b = None"
  by (simp add: nan_mul_def)

lemma slice0_nonneg: "0 \<le> s \<Longrightarrow> slice0 s xs = take (nat s) xs"
  by (simp add: slice0_def)

lemma slice0_minus_one: "slice0 (- 1) xs = take (length xs - 1) xs"
  by (simp add: slice0_def nat_diff_distrib')

lemma shift_up_nth: "Suc k < length col \<Longrightarrow> shift_up col ! k = col ! Suc k"
  by (cases col) (simp_all add: shift_up_def nth_append)

lemma length_shift_up: "length (shift_up col) = length col"
  by (cases col) (simp_all add: shift_up_def)

lemma column_vadv_sum:
  "sum_list (map skipna (column_vadv col))
   = (\<Sum>k<length col - 1. skipna (nan_sub (fillna0 (col ! (k + 1))) (col ! k)))"
proof -
  have len: "length (column_vadv col) = length col - 1"
    by (simp add: column_vadv_def slice0_minus_one length_shift_up)
  have nth: "column_vadv col ! k = nan_sub (fillna0 (col ! (k + 1))) (col ! k)"
    if "k < length col - 1" for k
    using that by (simp add: column_vadv_def slice0_minus_one length_shift_up shift_up_nth)
  have "sum_list (map skipna (column_vadv col))
        = (\<Sum>k<length col - 1. skipna (column_vadv col ! k))"
    by (simp add: sum_list_sum_nth len atLeast0LessThan)
  also have "\<dots> = (\<Sum>k<length col - 1. skipna (nan_sub (fillna0 (col ! (k + 1))) (col ! k)))"
    by (rule sum.cong) (simp_all add: nth)
  finally show ?thesis .
qed

lemma compute_vertical_advection_cell:
  assumes "i < length WT" "i < length vol" "i < length msk"
    and "j < length (WT ! i)" "j < length (vol ! i)" "j < length (msk ! i)"
    and "0 \<le> kmax"
  shows "dvalues (compute_vertical_advection WT vol msk (Some kmax)) ! i ! j
         = nan_mul (Some (sum_list (map skipna (column_vadv
             (map2 (\<lambda>x n. nan_mul (nan_mul x (Some n)) (Some 1))
                (if msk ! i ! j then take (nat (kmax + 2)) (WT ! i ! j)
                 else map (\<lambda>_. None) (take (nat (kmax + 2)) (WT ! i ! j)))
                (take (nat (kmax + 2)) (vol ! i ! j)))))))
             (Some NMOLS_TO_MOLYR)"
  using assms
  by (simp add: compute_vertical_advection_def convert_to_tendency_def Let_def convert_units_def
      sum_z_def isel_z_def sub3_def fillna_def shift_z_def where_mask_def slice0_nonneg
      column_vadv_def add.commute)

lemma vertical_advection_truncation:
  "compute_vertical_advection WT vol msk (Some kmax)
     = compute_vertical_advection (isel_z (kmax + 2) WT) (isel_z (kmax + 2) vol) msk None"
  by (simp add: compute_vertical_advection_def convert_to_tendency_def Let_def add.commute)

lemma lateral_advection_truncation:
  "compute_lateral_advection UE VN vol msk (Some kmax)
     = compute_lateral_advection (isel_z (kmax + 1) UE) (isel_z (kmax + 1) VN)
         (isel_z (kmax + 1) vol) msk None"
  by (simp add: compute_lateral_advection_def convert_to_tendency_def Let_def)

subsection \<open>Cell widths and the corner-point depth index\<close>

lemma half_sum_nth:
  "j < length a \<Longrightarrow> j < length b \<Longrightarrow> half_sum a b ! j = (a ! j + b ! j) / 2"
  by (simp add: half_sum_def)

lemma length_half_sum: "length (half_sum a b) = min (length a) (length b)"
  by (simp add: half_sum_def)

lemma generate_DXT_row0:
  assumes "length htn = n" "0 < n" "list_all (\<lambda>row. length row = m) htn" "j < m"
  shows "generate_DXT n htn ! 0 ! j = (htn ! 0 ! j + htn ! (n - 1) ! j) / 2"
  using assms by (simp add: generate_DXT_def half_sum_nth list_all_length)

lemma generate_DXT_interior:
  assumes "length htn = n" "0 < i" "i < n" "list_all (\<lambda>row. length row = m) htn" "j < m"
  shows "generate_DXT n htn ! i ! j = (htn ! (i - 1) ! j + htn ! i ! j) / 2"
proof -
  obtain i' where i': "i = Suc i'" using assms(2) by (cases i) auto
  have "generate_DXT n htn ! i = half_sum (htn ! i') (htn ! i)"
    using assms i' by (simp add: generate_DXT_def)
  then show ?thesis using assms i' by (simp add: half_sum_nth list_all_length)
qed

lemma generate_DXU_last:
  assumes "i < length htn" "list_all (\<lambda>row. length row = m) htn" "0 < m"
  shows "generate_DXU m htn ! i ! (m - 1) = (htn ! i ! (m - 1) + htn ! i ! 0) / 2"
proof -
  have len: "length (htn ! i) = m" using assms by (simp add: list_all_length)
  have "length (half_sum (take (m - 1) (htn ! i)) (drop 1 (htn ! i))) = m - 1"
    using len by (simp add: length_half_sum)
  then show ?thesis using assms by (simp add: generate_DXU_def nth_append)
qed

lemma generate_DXU_interior:
  assumes "i < length htn" "list_all (\<lambda>row. length row = m) htn" "j + 1 < m"
  shows "generate_DXU m htn ! i ! j = (htn ! i ! j + htn ! i ! (j + 1)) / 2"
proof -
  have len: "length (htn ! i) = m" using assms by (simp add: list_all_length)
  have "length (half_sum (take (m - 1) (htn ! i)) (drop 1 (htn ! i))) = m - 1"
    using len by (simp add: length_half_sum)
  moreover have "j < m - 1" using assms(3) by arith
  ultimately show ?thesis using assms len by (simp add: generate_DXU_def nth_append half_sum_nth)
qed

lemma get_grid_fields:
  "case get_grid grid_defs grid_name of
     Inl _ \<Rightarrow> True
   | Inr g \<Rightarrow> (\<forall>r. grid_defs grid_name = Some r \<longrightarrow>
        DXT g = generate_DXT (nlat r) (HTN r) \<and> DXU g = generate_DXU (nlon r) (HTN r))"
  by (simp add: get_grid_def Let_def split: option.splits)

lemma get_grid_widths:
  assumes "get_grid grid_defs grid_name = Inr g" "grid_defs grid_name = Some r"
  shows "DXT g = generate_DXT (nlat r) (HTN r) \<and> DXU g = generate_DXU (nlon r) (HTN r)"
  using get_grid_fields [of grid_defs grid_name] assms by simp

lemma get_grid_3x3:
  "get_grid grid_3x3_defs ''g33''
     = Inr \<lparr>DXT = [[11, 13, 15], [5, 7, 9], [14, 16, 18]],
        DYT = [[3, 2, 4], [9, 8, 10], [15, 14, 16]],
        DXU = [[3, 5, 4], [9, 11, 10], [21, 23, 22]],
        DYU = [[4, 6, 8], [10, 12, 14], [7, 9, 11]],
        TAREA = [[33, 26, 60], [45, 56, 90], [210, 224, 288]],
        UAREA = [[12, 30, 32], [90, 132, 140], [147, 207, 242]],
        KMT = [[0, 1, 2], [3, 3, 1], [2, 0, 3]],
        KMU = [[0, 0, 0], [0, 0, 1], [1, 0, 0]],
        REGION_MASK = [[1, 1, 2], [2, 1, 1], [3, 3, 3]], z_t = [5, 20, 45],
        dz = [10, 20, 30], z_w = [0, 10, 30], z_w_bot = [10, 30, 60]\<rparr>"
  by code_simp

lemma process_grid_3x3:
  "process_grid grid_3x3_defs ''g33''
     = Inr \<lparr>g_area = [[33, 26, 60], [45, 56, 90], [210, 224, 288]],
            g_vol = [[[330, 660, 990], [260, 520, 780], [600, 1200, 1800]],
                     [[450, 900, 1350], [560, 1120, 1680], [900, 1800, 2700]],
                     [[2100, 4200, 6300], [2240, 4480, 6720], [2880, 5760, 8640]]],
            g_z = [10, 30, 60],
            g_mask = [[1, 1, 2], [2, 1, 1], [3, 3, 3]]\<rparr>"
  by (simp add: process_grid_def get_grid_3x3)

lemma wrap_index_pred:
  "i < length xs \<Longrightarrow> wrap_index xs (int i - 1) = xs ! (if i = 0 then length xs - 1 else i - 1)"
  by (auto simp: wrap_index_def nat_diff_distrib' nat_add_distrib)

lemma wrap_index_same: "wrap_index xs (int i) = xs ! i"
  by (simp add: wrap_index_def)

lemma min4:
  fixes a b c d :: int
  shows "(min (min (min a b) c) d = Min {a, b, c, d}
          \<and> min (min (min a b) c) d \<le> a \<and> min (min (min a b) c) d \<le> b
          \<and> min (min (min a b) c) d \<le> c \<and> min (min (min a b) c) d \<le> d) = True"
  by (simp add: min.assoc min.coboundedI1 min.coboundedI2)

lemma generate_KMU_nth:
  assumes "i < length kmt" and "j < nlon_size kmt"
  shows "generate_KMU kmt ! i ! j
         = min (min (min (wrap_index (wrap_index kmt (int i)) (int j))
                         (wrap_index (wrap_index kmt (int i - 1)) (int j)))
                    (wrap_index (wrap_index kmt (int i)) (int j - 1)))
               (wrap_index (wrap_index kmt (int i - 1)) (int j - 1))"
  using assms by (simp add: generate_KMU_def nlat_size_def)

text \<open>The cells \<^verbatim>\<open>_generate_KMU\<close> reads for the corner point \<open>(i, j)\<close>: the cell itself, the
  cell in the row before, the cell in the column before and the cell before in both,
  where the row before row 0 is the last row and the column before column 0 is the last
  column.\<close>

lemma generate_KMU_cells:
  assumes "list_all (\<lambda>row. length row = nlon_size kmt) kmt"
    and "i < length kmt" and "j < nlon_size kmt"
    and "i' = (if i = 0 then length kmt - 1 else i - 1)"
    and "j' = (if j = 0 then nlon_size kmt - 1 else j - 1)"
  shows "generate_KMU kmt ! i ! j = Min {kmt ! i ! j, kmt ! i' ! j, kmt ! i ! j', kmt ! i' ! j'}
       \<and> generate_KMU kmt ! i ! j \<le> kmt ! i ! j \<and> generate_KMU kmt ! i ! j \<le> kmt ! i' ! j
       \<and> generate_KMU kmt ! i ! j \<le> kmt ! i ! j' \<and> generate_KMU kmt ! i ! j \<le> kmt ! i' ! j'"
proof -
  have i': "i' < length kmt" using assms(2,4) by auto
  have len: "length (kmt ! i) = nlon_size kmt" "length (kmt ! i') = nlon_size kmt"
    using assms(1,2) i' by (simp_all add: list_all_length)
  have r: "wrap_index kmt (int i - 1) = kmt ! i'"
    using wrap_index_pred [of i kmt] assms(2,4) by simp
  have c1: "wrap_index (kmt ! i) (int j - 1) = kmt ! i ! j'"
    using wrap_index_pred [of j "kmt ! i"] assms(3,5) len(1) by simp
  have c2: "wrap_index (kmt ! i') (int j - 1) = kmt ! i' ! j'"
    using wrap_index_pred [of j "kmt ! i'"] assms(3,5) len(2) by simp
  have "generate_KMU kmt ! i ! j
        = min (min (min (kmt ! i ! j) (kmt ! i' ! j)) (kmt ! i ! j')) (kmt ! i' ! j')"
    by (simp only: generate_KMU_nth [OF assms(2,3)] wrap_index_same r c1 c2)
  then show ?thesis by (simp only: min4)
qed

section \<open>The claims\<close>

text \<open>C1, evaluated on the code. The specification asks of the meridional branch the
  latitudinal analogue of the zonal one: the masked field is rolled back along \<^verbatim>\<open>nlat\<close>.
  The code rolls the mask along \<^verbatim>\<open>nlat\<close> but the masked field along \<^verbatim>\<open>nlon\<close>. On the
  three-by-three field with the middle cell as the region, the code's result is missing
  in every cell, while the latitudinal analogue gives the middle cell the flux of the
  cell south of it minus its own, \<open>1 - 11\<close>.\<close>

theorem meridional_divergence_rolls_back_along_nlon:
  "compute_horizontal_divergence flux_3x3 mask_3x3 ''meridional''
     = Inr [[[None], [None], [None]], [[None], [None], [None]], [[None], [None], [None]]]
   \<and> latitudinal_analogue flux_3x3 mask_3x3
     = [[[None], [None], [None]], [[None], [Some (- 10)], [None]], [[None], [None], [None]]]"
  by (simp add: compute_horizontal_divergence_def latitudinal_analogue_def flux_3x3_def
      mask_3x3_def roll_nlon_def roll_nlat_def roll_def where_mask_def sub3_def nan_sub_def
      rotate_def eval_nat_numeral)

text \<open>C2 as stated fails where the requested depth equals the bottom depth of the deepest
  layer: no layer bottom exceeds it, \<^verbatim>\<open>argmin\<close> of an all-true array is 0, and the result
  is the full-depth value \<^verbatim>\<open>None\<close>, not the index of that layer. With layer bottoms 10 and
  20 and the depth 20 (the bottom of layer 1) the result is \<^verbatim>\<open>None\<close>.\<close>

theorem compute_kmax_deepest_bottom_is_full_depth:
  "sorted_wrt (<) [10, 20 :: real] \<and> [10, 20 :: real] ! 1 = 20
   \<and> compute_kmax 20 [10, 20] = Inr None"
  by (simp add: compute_kmax_def argmin_def)

text \<open>C2, amended. For a non-empty, strictly increasing array of layer bottom depths:
  when the first layer whose bottom exceeds the depth is a layer \<open>i > 0\<close>, the result is
  \<open>i - 1\<close>; in particular a depth equal to the bottom of a layer \<open>k\<close> that is not the
  deepest gives \<open>k\<close>; and a depth at or below the bottom of the deepest layer gives the
  full-depth value \<^verbatim>\<open>None\<close>.\<close>

theorem compute_kmax_steps_back_one:
  assumes "z \<noteq> []" and "sorted_wrt (<) z"
  shows "(\<forall>i. 0 < i \<and> i < length z \<and> z ! (i - 1) \<le> d \<and> d < z ! i \<longrightarrow>
            compute_kmax d z = Inr (Some (int i - 1)))
       \<and> (\<forall>k. k + 1 < length z \<and> d = z ! k \<longrightarrow> compute_kmax d z = Inr (Some (int k)))
       \<and> (last z \<le> d \<longrightarrow> compute_kmax d z = Inr None)"
proof (intro conjI allI impI)
  fix i assume h: "0 < i \<and> i < length z \<and> z ! (i - 1) \<le> d \<and> d < z ! i"
  have "\<forall>j<i. z ! j \<le> d"
  proof (intro allI impI)
    fix j assume "j < i"
    then have "j \<le> i - 1" by simp
    then have "z ! j \<le> z ! (i - 1)"
      using assms(2) h by (cases "j = i - 1") (auto simp: sorted_wrt_iff_nth_less less_imp_le)
    with h show "z ! j \<le> d" by simp
  qed
  with h show "compute_kmax d z = Inr (Some (int i - 1))"
    using compute_kmax_first_exceeding [of i z d] by simp
next
  fix k assume h: "k + 1 < length z \<and> d = z ! k"
  have 1: "d < z ! (k + 1)" using assms(2) h by (simp add: sorted_wrt_iff_nth_less)
  have "\<forall>j<k + 1. z ! j \<le> d"
  proof (intro allI impI)
    fix j assume "j < k + 1"
    then show "z ! j \<le> d"
      using assms(2) h by (cases "j = k") (auto simp: sorted_wrt_iff_nth_less less_imp_le)
  qed
  with h 1 show "compute_kmax d z = Inr (Some (int k))"
    using compute_kmax_first_exceeding [of "k + 1" z d] by simp
next
  assume h: "last z \<le> d"
  have "\<forall>j<length z. z ! j \<le> d"
  proof (intro allI impI)
    fix j assume j: "j < length z"
    have "z ! j \<le> z ! (length z - 1)"
      using assms j by (cases "j = length z - 1") (auto simp: sorted_wrt_iff_nth_less less_imp_le)
    then show "z ! j \<le> d" using h assms(1) by (simp add: last_conv_nth)
  qed
  then show "compute_kmax d z = Inr None"
    using assms(1) by (rule compute_kmax_none_exceeding [rotated])
qed

text \<open>The amended C2 on the layer bottoms 10, 20, 30: the depth 15 lies between the
  bottoms of layers 0 and 1, the depth 20 is the bottom of layer 1, the depth 30 is the
  bottom of the deepest layer.\<close>

theorem compute_kmax_steps_back_one_witness:
  "([10, 20, 30] :: real list) \<noteq> [] \<and> sorted_wrt (<) [10, 20, 30 :: real]
   \<and> compute_kmax 15 [10, 20, 30] = Inr (Some 0)
   \<and> compute_kmax 20 [10, 20, 30] = Inr (Some 1)
   \<and> compute_kmax 30 [10, 20, 30] = Inr None"
  using compute_kmax_steps_back_one [of "[10, 20, 30]" 15]
    compute_kmax_steps_back_one [of "[10, 20, 30]" 20]
    compute_kmax_steps_back_one [of "[10, 20, 30]" 30]
  by (simp add: compute_kmax_def argmin_def)

text \<open>C3 as stated fails when the caller supplies a mask and no \<^verbatim>\<open>mask_int\<close>: the check
  of \<^verbatim>\<open>mask_int\<close> does not depend on the mask, so the error is raised all the same. And a
  supplied mask is compared with \<^verbatim>\<open>mask_int\<close> like the default one: a supplied field that
  is 1 in one cell and 0 elsewhere gives, with \<^verbatim>\<open>mask_int = 0\<close>, the mask of the other
  cells.\<close>

theorem supplied_mask_still_needs_mask_int:
  "regional_tracer_budget_mask_kmax grid_3x3_defs ''g33''
       (Some [[1, 0, 0], [0, 0, 0], [0, 0, 0]]) None None
     = Inl MissingMaskInt
   \<and> regional_tracer_budget_mask_kmax grid_3x3_defs ''g33''
       (Some [[1, 0, 0], [0, 0, 0], [0, 0, 0]]) (Some 0) None
     = Inr ([[False, True, True], [True, True, True], [True, True, True]], None)"
  by (simp add: regional_tracer_budget_mask_kmax_def process_grid_3x3 budget_kmax_def)

text \<open>C3, amended. The budget fails with the missing-mask-integer error exactly when the
  grid is read without error and no \<^verbatim>\<open>mask_int\<close> is given, whether or not the caller
  supplies a mask. When the mask and depth limit are computed, the mask is the field of
  the cells whose value equals \<^verbatim>\<open>mask_int\<close> in the caller's mask or, without one, in the
  region classification of the grid.\<close>

theorem missing_mask_int_iff_no_mask_int:
  "(regional_tracer_budget_mask_kmax grid_defs grid msk mask_int budget_depth = Inl MissingMaskInt)
     = ((\<exists>g. process_grid grid_defs grid = Inr g) \<and> mask_int = None)
   \<and> (\<forall>m kmax.
        regional_tracer_budget_mask_kmax grid_defs grid msk mask_int budget_depth = Inr (m, kmax) \<longrightarrow>
        (\<exists>g n. process_grid grid_defs grid = Inr g \<and> mask_int = Some n \<and>
           m = map (map (\<lambda>v. v = n)) (case msk of None \<Rightarrow> g_mask g | Some m' \<Rightarrow> m')))"
  using process_grid_not_missing [of grid_defs grid] budget_kmax_not_missing
  by (auto simp: regional_tracer_budget_mask_kmax_def Let_def split: sum.splits option.splits)

text \<open>The amended C3 on the three-by-three grid, whose region classification has the
  rows 1, 1, 2 and 2, 1, 1 and 3, 3, 3, with no caller's mask and \<^verbatim>\<open>mask_int = 2\<close>.\<close>

theorem missing_mask_int_iff_no_mask_int_witness:
  "regional_tracer_budget_mask_kmax grid_3x3_defs ''g33'' None (Some 2) None
     = Inr ([[False, False, True], [True, False, False], [False, False, False]], None)
   \<and> [[False, False, True], [True, False, False], [False, False, False]]
     = map (map (\<lambda>v. v = 2)) [[1, 1, 2], [2, 1, 1], [3, 3, 3 :: int]]"
  using missing_mask_int_iff_no_mask_int [of grid_3x3_defs "''g33''" None "Some 2" None]
    process_grid_3x3
  by (simp add: regional_tracer_budget_mask_kmax_def budget_kmax_def)

text \<open>C4 as stated fails on a flux with missing values: \<^verbatim>\<open>fillna(0)\<close> fills every missing
  value of the shifted field with zero, not only the slot the shift vacates. In a column
  with the values 1, 3 and nothing below, and \<open>kmax = 1\<close>, the code takes the difference
  at layer 1 as \<open>0 - 3\<close> and returns \<open>(3 - 1) + (0 - 3) = -1\<close> times the conversion factor;
  with only the vacated slot filled, the difference at layer 1 is missing and the result
  is \<open>3 - 1 = 2\<close> times the factor.\<close>

theorem vertical_advection_fills_all_missing:
  "dvalues (compute_vertical_advection WT_1x1 vol_1x1 [[True]] (Some 1))
     = [[Some (- 1 * NMOLS_TO_MOLYR)]]
   \<and> vertical_advection_as_specified WT_1x1 vol_1x1 [[True]] 1
     = [[Some (2 * NMOLS_TO_MOLYR)]]
   \<and> - 1 * NMOLS_TO_MOLYR \<noteq> 2 * NMOLS_TO_MOLYR"
  by (simp add: compute_vertical_advection_def vertical_advection_as_specified_def isel_z_def
      slice0_def where_mask_def convert_to_tendency_def nan_mul_def shift_z_def shift_up_def
      fillna_def fillna0_def sub3_def nan_sub_def sum_z_def skipna_def convert_units_def
      NMOLS_TO_MOLYR_def WT_1x1_def vol_1x1_def eval_nat_numeral)

text \<open>C4, amended. With a depth limit \<open>kmax \<ge> 0\<close> the vertical advection is the one
  computed without a limit from the flux and the cell volume truncated to the layers 0 to
  \<open>kmax + 1\<close>, one layer more than the lateral advection, which is the one computed
  without a limit from its fluxes and the cell volume truncated to the layers 0 to
  \<open>kmax\<close>. In a cell \<open>(i, j)\<close> whose flux and volume columns have the same number of
  layers, with \<open>T k\<close> the masked tendency of layer \<open>k\<close> (flux times volume, missing outside
  the mask) and \<open>m\<close> the number of loaded layers, the result is the conversion factor
  times the sum, over the layers \<open>k\<close> before the last loaded one, of the differences
  \<open>T (k + 1) - T k\<close> that are not missing, where a missing \<open>T (k + 1)\<close> counts as zero;
  the result carries the unit \<open>mol/yr\<close>.\<close>

theorem vertical_advection_truncated:
  assumes "0 \<le> kmax"
    and "i < length WT" and "i < length vol" and "i < length msk"
    and "j < length (WT ! i)" and "j < length (vol ! i)" and "j < length (msk ! i)"
    and "length (vol ! i ! j) = length (WT ! i ! j)"
    and "m = min (nat (kmax + 2)) (length (WT ! i ! j))"
    and "\<forall>k. T k = (if msk ! i ! j then nan_mul (WT ! i ! j ! k) (Some (vol ! i ! j ! k)) else None)"
  shows "compute_vertical_advection WT vol msk (Some kmax)
           = compute_vertical_advection (isel_z (kmax + 2) WT) (isel_z (kmax + 2) vol) msk None
       \<and> compute_lateral_advection UE VN vol msk (Some kmax)
           = compute_lateral_advection (isel_z (kmax + 1) UE) (isel_z (kmax + 1) VN)
               (isel_z (kmax + 1) vol) msk None
       \<and> dvalues (compute_vertical_advection WT vol msk (Some kmax)) ! i ! j
           = Some ((\<Sum>k<m - 1. skipna (nan_sub (fillna0 (T (k + 1))) (T k))) * NMOLS_TO_MOLYR)
       \<and> units (compute_vertical_advection WT vol msk (Some kmax)) = Some ''mol/yr''"
proof -
  let ?K = "nat (kmax + 2)"
  let ?c = "map2 (\<lambda>x n. nan_mul (nan_mul x (Some n)) (Some 1))
              (if msk ! i ! j then take ?K (WT ! i ! j)
               else map (\<lambda>_. None) (take ?K (WT ! i ! j)))
              (take ?K (vol ! i ! j))"
  have len: "length ?c = m"
    using assms(8,9) by simp
  have nth: "?c ! k = T k" if "k < m" for k
    using that assms(8,9,10) by (simp add: nan_mul_one nan_mul_None)
  have "sum_list (map skipna (column_vadv ?c))
        = (\<Sum>k<m - 1. skipna (nan_sub (fillna0 (?c ! (k + 1))) (?c ! k)))"
    by (simp only: column_vadv_sum len)
  also have "\<dots> = (\<Sum>k<m - 1. skipna (nan_sub (fillna0 (T (k + 1))) (T k)))"
    by (rule sum.cong) (simp_all add: nth)
  finally have s: "sum_list (map skipna (column_vadv ?c))
        = (\<Sum>k<m - 1. skipna (nan_sub (fillna0 (T (k + 1))) (T k)))" .
  have "dvalues (compute_vertical_advection WT vol msk (Some kmax)) ! i ! j
        = nan_mul (Some (sum_list (map skipna (column_vadv ?c)))) (Some NMOLS_TO_MOLYR)"
    using assms(1-7) by (rule compute_vertical_advection_cell [rotated -1])
  then have "dvalues (compute_vertical_advection WT vol msk (Some kmax)) ! i ! j
        = Some ((\<Sum>k<m - 1. skipna (nan_sub (fillna0 (T (k + 1))) (T k))) * NMOLS_TO_MOLYR)"
    by (simp only: s) (simp add: nan_mul_def)
  moreover have "units (compute_vertical_advection WT vol msk (Some kmax)) = Some ''mol/yr''"
    by (simp add: compute_vertical_advection_def Let_def convert_units_def)
  ultimately show ?thesis
    using vertical_advection_truncation [of WT vol msk kmax]
      lateral_advection_truncation [of UE VN vol msk kmax] by simp
qed

text \<open>The amended C4 in the single cell whose flux column is 1, 3 and nothing below, with
  \<open>kmax = 1\<close>: three layers are loaded, and the sum runs over the layers 0 and 1.\<close>

theorem vertical_advection_truncated_witness:
  "(0::int) \<le> 1 \<and> length (vol_1x1 ! 0 ! 0) = length (WT_1x1 ! 0 ! 0)
   \<and> (3::nat) = min (nat (1 + 2)) (length (WT_1x1 ! 0 ! 0))
   \<and> dvalues (compute_vertical_advection WT_1x1 vol_1x1 [[True]] (Some 1)) ! 0 ! 0
     = Some (((3 - 1) + (0 - 3)) * NMOLS_TO_MOLYR)"
proof -
  let ?T = "\<lambda>k. nan_mul (WT_1x1 ! 0 ! 0 ! k) (Some (vol_1x1 ! 0 ! 0 ! k))"
  note t = vertical_advection_truncated [of 1 0 WT_1x1 vol_1x1 "[[True]]" 0 3 ?T "[]" "[]"]
  have "dvalues (compute_vertical_advection WT_1x1 vol_1x1 [[True]] (Some 1)) ! 0 ! 0
        = Some ((\<Sum>k<3 - 1. skipna (nan_sub (fillna0 (?T (k + 1))) (?T k))) * NMOLS_TO_MOLYR)"
    by (rule t [THEN conjunct2, THEN conjunct2, THEN conjunct1])
      (simp_all add: WT_1x1_def vol_1x1_def)
  then show ?thesis
    by (simp add: WT_1x1_def vol_1x1_def nan_mul_def nan_sub_def fillna0_def skipna_def
        lessThan_Suc eval_nat_numeral)
qed

text \<open>C5. For a grid that \<^verbatim>\<open>get_grid\<close> builds from raw widths \<^verbatim>\<open>HTN\<close> of \<open>nlat\<close> rows and
  \<open>nlon\<close> columns: the center-point width \<^verbatim>\<open>DXT\<close> in row 0 is the average of the raw
  widths in row 0 and in the last row, and in a row \<open>i > 0\<close> the average of rows \<open>i - 1\<close>
  and \<open>i\<close>; the corner-point width \<^verbatim>\<open>DXU\<close> in the last column is the average of the raw
  widths in the last column and in column 0, and in a column \<open>j\<close> before the last the
  average of columns \<open>j\<close> and \<open>j + 1\<close>.\<close>

theorem cell_widths_wrap_rules:
  assumes "get_grid grid_defs grid_name = Inr g" and "grid_defs grid_name = Some r"
    and "length (HTN r) = nlat r" and "list_all (\<lambda>row. length row = nlon r) (HTN r)"
    and "0 < nlat r" and "0 < nlon r"
  shows "(\<forall>j<nlon r. DXT g ! 0 ! j = (HTN r ! 0 ! j + HTN r ! (nlat r - 1) ! j) / 2)
       \<and> (\<forall>i j. 0 < i \<and> i < nlat r \<and> j < nlon r \<longrightarrow>
             DXT g ! i ! j = (HTN r ! (i - 1) ! j + HTN r ! i ! j) / 2)
       \<and> (\<forall>i<nlat r. DXU g ! i ! (nlon r - 1) = (HTN r ! i ! (nlon r - 1) + HTN r ! i ! 0) / 2)
       \<and> (\<forall>i j. i < nlat r \<and> j + 1 < nlon r \<longrightarrow>
             DXU g ! i ! j = (HTN r ! i ! j + HTN r ! i ! (j + 1)) / 2)"
proof -
  have w: "DXT g = generate_DXT (nlat r) (HTN r)" "DXU g = generate_DXU (nlon r) (HTN r)"
    using get_grid_widths [OF assms(1,2)] by simp_all
  show ?thesis
  proof (intro conjI allI impI)
    fix j assume "j < nlon r"
    then show "DXT g ! 0 ! j = (HTN r ! 0 ! j + HTN r ! (nlat r - 1) ! j) / 2"
      unfolding w using generate_DXT_row0 [of "HTN r" "nlat r" "nlon r" j] assms(3,4,5) by simp
  next
    fix i j assume "0 < i \<and> i < nlat r \<and> j < nlon r"
    then show "DXT g ! i ! j = (HTN r ! (i - 1) ! j + HTN r ! i ! j) / 2"
      unfolding w using generate_DXT_interior [of "HTN r" "nlat r" i "nlon r" j] assms(3,4) by simp
  next
    fix i assume "i < nlat r"
    then show "DXU g ! i ! (nlon r - 1) = (HTN r ! i ! (nlon r - 1) + HTN r ! i ! 0) / 2"
      unfolding w using generate_DXU_last [of i "HTN r" "nlon r"] assms(3,4,6) by simp
  next
    fix i j assume "i < nlat r \<and> j + 1 < nlon r"
    then show "DXU g ! i ! j = (HTN r ! i ! j + HTN r ! i ! (j + 1)) / 2"
      unfolding w using generate_DXU_interior [of i "HTN r" "nlon r" j] assms(3,4) by simp
  qed
qed

text \<open>C5 on the three-by-three grid, whose raw widths are 2, 4, 6 in row 0, 8, 10, 12 in
  row 1 and 20, 22, 24 in row 2.\<close>

theorem cell_widths_wrap_rules_witness:
  "\<exists>g. get_grid grid_3x3_defs ''g33'' = Inr g
       \<and> DXT g ! 0 ! 1 = (4 + 22) / 2 \<and> DXT g ! 2 ! 1 = (10 + 22) / 2
       \<and> DXU g ! 1 ! 2 = (12 + 8) / 2 \<and> DXU g ! 1 ! 0 = (8 + 10) / 2"
proof -
  have r: "grid_3x3_defs ''g33'' = Some \<lparr>nlat = 3, nlon = 3,
                   HTN = [[2, 4, 6], [8, 10, 12], [20, 22, 24]],
                   HTE = [[1, 3, 5], [7, 9, 11], [13, 15, 17]],
                   vert_dz = [10, 20, 30],
                   kmt_flat = [0, 1, 2, 3, 3, 1, 2, 0, 3],
                   region_mask_flat = [1, 1, 2, 2, 1, 1, 3, 3, 3]\<rparr>"
    by (simp add: grid_3x3_defs_def)
  show ?thesis
    using cell_widths_wrap_rules [OF get_grid_3x3 r] by (simp add: get_grid_3x3)
qed

text \<open>C6, evaluated on the code. The corner point \<open>(1, 1)\<close> of the three-by-three
  topography is bounded by the cells \<open>(1, 1)\<close>, \<open>(1, 2)\<close>, \<open>(2, 1)\<close> and \<open>(2, 2)\<close>, of which
  the last is land, so the least of their depth indices is 0. The code takes the least
  over the cells \<open>(1, 1)\<close>, \<open>(0, 1)\<close>, \<open>(1, 0)\<close> and \<open>(0, 0)\<close> and gives 5, which is more
  than the depth index of the bounding cell \<open>(2, 2)\<close>.\<close>

theorem KMU_exceeds_a_bounding_cell:
  "generate_KMU kmt_land_corner ! 1 ! 1 = 5
   \<and> kmt_land_corner ! 2 ! 2 = 0
   \<and> min_of_bounding_cells kmt_land_corner 1 1 = 0
   \<and> generate_KMU kmt_land_corner ! 1 ! 1 \<noteq> min_of_bounding_cells kmt_land_corner 1 1
   \<and> \<not> generate_KMU kmt_land_corner ! 1 ! 1 \<le> kmt_land_corner ! 2 ! 2"
  by code_simp

text \<open>C7. For a field whose rows have the same number of cells, the vertical divergence
  at layer \<open>k\<close> of a cell is the value at layer \<open>k\<close> minus the value at layer \<open>k - 1\<close>,
  with zero in place of a layer above layer 0; so the result at layer 0 is the input at
  layer 0. Applied to a field that is zero everywhere it returns that field.\<close>

theorem vertical_divergence_layer_difference:
  assumes "list_all (\<lambda>row. length row = nlon_size da) da"
  shows "(\<forall>i j k. i < length da \<and> j < length (da ! i) \<and> k < length (da ! i ! j) \<longrightarrow>
            compute_vertical_divergence da ! i ! j ! k
              = nan_sub (da ! i ! j ! k) (if k = 0 then Some 0 else da ! i ! j ! (k - 1)))
       \<and> (\<forall>i j. i < length da \<and> j < length (da ! i) \<and> 0 < length (da ! i ! j) \<longrightarrow>
            compute_vertical_divergence da ! i ! j ! 0 = da ! i ! j ! 0)
       \<and> compute_vertical_divergence (replicate ny (replicate nx (replicate nz (Some 0))))
            = replicate ny (replicate nx (replicate nz (Some 0)))"
proof (intro conjI allI impI)
  fix i j k assume h: "i < length da \<and> j < length (da ! i) \<and> k < length (da ! i ! j)"
  then show "compute_vertical_divergence da ! i ! j ! k
              = nan_sub (da ! i ! j ! k) (if k = 0 then Some 0 else da ! i ! j ! (k - 1))"
    by (simp add: compute_vertical_divergence_columns [OF assms] nth_Cons')
next
  fix i j assume h: "i < length da \<and> j < length (da ! i) \<and> 0 < length (da ! i ! j)"
  then show "compute_vertical_divergence da ! i ! j ! 0 = da ! i ! j ! 0"
    by (simp add: compute_vertical_divergence_columns [OF assms] nan_sub_zero)
next
  have r: "list_all (\<lambda>row. length row = nlon_size (replicate ny (replicate nx (replicate nz (Some (0::real))))))
          (replicate ny (replicate nx (replicate nz (Some 0))))"
    by (simp add: list_all_length nlon_size_replicate)
  show "compute_vertical_divergence (replicate ny (replicate nx (replicate nz (Some 0))))
            = replicate ny (replicate nx (replicate nz (Some 0)))"
    by (simp add: compute_vertical_divergence_columns [OF r] zero_column)
qed

text \<open>C7 on a field of one row and two cells with four layers, one value missing in
  each column.\<close>

theorem vertical_divergence_layer_difference_witness:
  "compute_vertical_divergence [[[Some 5, Some 7, None, Some 4], [None, Some 2, Some 1, Some 1]]]
    = [[[Some 5, Some 2, None, None], [None, None, Some (- 1), Some 0]]]"
  using vertical_divergence_layer_difference
          [of "[[[Some 5, Some 7, None, Some 4], [None, Some 2, Some 1, Some 1]]]"]
  by (simp add: compute_vertical_divergence_def nlat_size_def nlon_size_def concat_z_def
      diff_z_def nan_sub_def)

text \<open>C8. For each of the two directions the horizontal divergence returns a field, and
  on the negated flux it returns the negation of that field.\<close>

theorem horizontal_divergence_antisymmetric:
  assumes "direction = ''zonal'' \<or> direction = ''meridional''"
  shows "\<exists>dv. compute_horizontal_divergence da msk direction = Inr dv
             \<and> compute_horizontal_divergence (neg3 da) msk direction = Inr (neg3 dv)"
  using assms
  by (auto simp: compute_horizontal_divergence_def Let_def where_mask_neg3 roll_nlon_neg3 sub3_neg3)

text \<open>C8 on the three-by-three field in the zonal direction: the divergence of the
  field is \<open>10 - 11\<close> in the middle cell, that of the negated field is \<open>1\<close>.\<close>

theorem horizontal_divergence_antisymmetric_witness:
  "compute_horizontal_divergence flux_3x3 mask_3x3 ''zonal''
     = Inr [[[None], [None], [None]], [[None], [Some (- 1)], [None]], [[None], [None], [None]]]
   \<and> compute_horizontal_divergence (neg3 flux_3x3) mask_3x3 ''zonal''
     = Inr [[[None], [None], [None]], [[None], [Some 1], [None]], [[None], [None], [None]]]"
  using horizontal_divergence_antisymmetric [of "''zonal''" flux_3x3 mask_3x3]
  by (simp add: compute_horizontal_divergence_def flux_3x3_def neg3_def nan_neg_def
      mask_3x3_def roll_nlon_def roll_def where_mask_def sub3_def nan_sub_def
      rotate_def eval_nat_numeral)

text \<open>C9. The unit conversion sets the unit label to \<open>mol/yr\<close> and multiplies every value
  by \<open>1e-9 * 86400 * 365\<close>; dividing every value of the result by that constant gives the
  values back (over the reals).\<close>

theorem convert_units_roundtrip:
  "units (convert_units ds) = Some ''mol/yr''
   \<and> dvalues (convert_units ds)
       = map (map (\<lambda>v. nan_mul v (Some (1 / 10 ^ 9 * 86400 * 365)))) (dvalues ds)
   \<and> map (map (map_option (\<lambda>y. y / (1 / 10 ^ 9 * 86400 * 365)))) (dvalues (convert_units ds))
       = dvalues ds"
proof -
  have "map_option (\<lambda>y. y / (1 / 10 ^ 9 * 86400 * 365))
          (nan_mul v (Some (1 / 10 ^ 9 * 86400 * 365))) = v" for v
    by (cases v) (simp_all add: nan_mul_def)
  then show ?thesis
    by (simp add: convert_units_def NMOLS_TO_MOLYR_def comp_def)
qed

text \<open>C10. When the grid is read without error and the requested depth, converted from m
  to cm, is less than the bottom depth of layer 0, the depth limit is \<^verbatim>\<open>None\<close>, and the
  mask and depth limit the terms are computed with are those of a request without a
  depth: the budget is that of the full depth.\<close>

theorem shallow_depth_is_full_depth:
  assumes "process_grid grid_defs grid = Inr g" and "g_z g \<noteq> []" and "d * 100 < g_z g ! 0"
  shows "budget_kmax (Some d) (g_z g) = Inr None
       \<and> regional_tracer_budget_mask_kmax grid_defs grid msk mask_int (Some d)
           = regional_tracer_budget_mask_kmax grid_defs grid msk mask_int None"
proof -
  have "compute_kmax (d * 100) (g_z g) = Inr None"
    using assms compute_kmax_first_exceeding [of 0 "g_z g" "d * 100"] by simp
  then have eq: "budget_kmax (Some d) (g_z g) = Inr None" "budget_kmax None (g_z g) = Inr None"
    by (simp_all add: budget_kmax_def)
  show ?thesis
    by (cases mask_int) (simp_all add: regional_tracer_budget_mask_kmax_def assms(1) eq)
qed

text \<open>C10 on the three-by-three grid, whose layer bottoms are 10 cm, 30 cm and 60 cm,
  with the depth 0.05 m.\<close>

theorem shallow_depth_is_full_depth_witness:
  "(0.05 :: real) * 100 < [10, 30, 60] ! 0
   \<and> regional_tracer_budget_mask_kmax grid_3x3_defs ''g33'' None (Some 1) (Some 0.05)
     = Inr ([[True, True, False], [False, True, True], [False, False, False]], None)
   \<and> regional_tracer_budget_mask_kmax grid_3x3_defs ''g33'' None (Some 1) None
     = Inr ([[True, True, False], [False, True, True], [False, False, False]], None)"
  using shallow_depth_is_full_depth [of grid_3x3_defs "''g33''" _ "0.05" None "Some 1"]
    process_grid_3x3
  by (simp add: regional_tracer_budget_mask_kmax_def budget_kmax_def)

end
